theory Spec2Isabelle
  imports Complex_Main
begin

section \<open>OR-BIT clinical dashboard: view state and its update functions\<close>

text \<open>
  The repository is a set of React components whose state lives in \<open>useState\<close> cells.
  Every state update in the source is a pure function \<open>prev => next\<close> handed to a
  setter; the model keeps those functions as they are written and makes the inputs a
  component reads from its host (the clock, \<open>Math.random\<close>, \<open>fetch\<close>, number
  formatting, trimming, date parsing) explicit arguments.

  JavaScript numbers are modelled as \<open>real\<close>: the source only compares vitals with
  thresholds and adds a handful of constants, and every statement below depends on the
  order of the values only. Strings are byte strings; the non-ASCII characters of the
  source's literals are written as their UTF-8 bytes.
\<close>

subsection \<open>Array helpers\<close>

text \<open>
  \<open>xs.slice(-n)\<close> for a positive literal \<open>n\<close>: the start index is
  \<open>max (length - n) 0\<close>, so a shorter array is returned whole.
\<close>

definition slice_last :: "nat \<Rightarrow> 'a list \<Rightarrow> 'a list" where
  "slice_last n xs = drop (length xs - n) xs"

subsection \<open>Main page (\<open>src/pages/index.tsx\<close>): data\<close>

datatype severity = HIGH | MEDIUM | LOW

record VitalsData =
  timestamp :: string
  MAP :: real
  HR :: real
  SpO2 :: real
  RR :: real
  Temp :: real
  EtCO2 :: real
  BIS :: "real option"
  source :: "string option"

record Alert =
  alert_id :: string
  alert_type :: string
  alert_description :: string
  alert_severity :: severity
  alert_timestamp :: string
  acknowledged :: bool

subsection \<open>Main page: vitals history\<close>

text \<open>
  The effect on \<open>healthKitVitals\<close>:
  \<^verbatim>\<open>if (healthKitVitals) { setVitals(prev => [...prev.slice(-50), healthKitVitals]); }\<close>
  The hook's reading is \<open>null\<close> until the first sample arrives.
\<close>

definition appendReading :: "VitalsData \<Rightarrow> VitalsData list \<Rightarrow> VitalsData list" where
  "appendReading healthKitVitals prev = slice_last 50 prev @ [healthKitVitals]"

definition healthKitVitalsEffect :: "VitalsData option \<Rightarrow> VitalsData list \<Rightarrow> VitalsData list" where
  "healthKitVitalsEffect healthKitVitals vitals =
     (case healthKitVitals of
        None \<Rightarrow> vitals
      | Some v \<Rightarrow> appendReading v vitals)"

subsection \<open>Main page: acknowledging alerts\<close>

text \<open>
  The Acknowledge All button:
  \<^verbatim>\<open>setAlerts(prev => prev.map(a => ({ ...a, acknowledged: true })))\<close>
  and the ACK button rendered for the alert \<open>alert\<close>:
  \<^verbatim>\<open>setAlerts(prev => prev.map(a => a.id === alert.id ? { ...a, acknowledged: true } : a))\<close>
\<close>

definition acknowledgeAll :: "Alert list \<Rightarrow> Alert list" where
  "acknowledgeAll prev = map (\<lambda>a. a\<lparr>acknowledged := True\<rparr>) prev"

definition acknowledgeOne :: "string \<Rightarrow> Alert list \<Rightarrow> Alert list" where
  "acknowledgeOne x prev =
     map (\<lambda>a. if alert_id a = x then a\<lparr>acknowledged := True\<rparr> else a) prev"

text \<open>The fields of an alert other than the acknowledged flag.\<close>

definition alert_rest :: "Alert \<Rightarrow> string \<times> string \<times> string \<times> severity \<times> string" where
  "alert_rest a =
     (alert_id a, alert_type a, alert_description a, alert_severity a, alert_timestamp a)"

subsection \<open>Host functions\<close>

text \<open>
  \<open>String(n)\<close> for a non-negative integer, as the template literals
  \<open>`MAP_${Date.now()}`\<close> and \<open>`... status: ${response.status}`\<close> print it.
\<close>

fun decimal :: "nat \<Rightarrow> string" where
  "decimal n =
     (if n < 10 then [char_of (48 + n)]
      else decimal (n div 10) @ [char_of (48 + n mod 10)])"

declare decimal.simps [simp del]

text \<open>\<open>xs.join(sep)\<close> on an array of strings.\<close>

fun join :: "string \<Rightarrow> string list \<Rightarrow> string" where
  "join sep [] = []"
| "join sep [x] = x"
| "join sep (x # y # ys) = x @ sep @ join sep (y # ys)"

text \<open>
  \<open>s.trim()\<close> strips the white space and line terminators of the Unicode standard
  from both ends of a string; like number formatting below it belongs to the host and is
  an argument \<open>trim\<close> of every function that trims.
\<close>

type_synonym trimmer = "string \<Rightarrow> string"

text \<open>
  Number formatting \<open>x.toFixed(d)\<close> prints the decimal expansion of a binary
  floating-point value; it is an argument \<open>toFixed\<close> of every function that formats.
  The clock is an argument too: \<open>dateNow k\<close> is the value of the \<open>k\<close>-th
  \<open>Date.now()\<close> (or \<open>new Date()\<close>) of one call, in milliseconds.
\<close>

type_synonym formatter = "real \<Rightarrow> nat \<Rightarrow> string"
type_synonym clock = "nat \<Rightarrow> nat"

definition sub2 :: string where
  "sub2 = [CHR 0xE2, CHR 0x82, CHR 0x82]"

definition degree :: string where
  "degree = [CHR 0xC2, CHR 0xB0]"

definition newline :: string where
  "newline = [CHR 0x0A]"

subsection \<open>Main page: alert generation\<close>

text \<open>
  \<open>checkForAlerts\<close> pushes up to three alerts for the last reading, in the order
  MAP, HR, SpO2; each push reads the clock once for the alert's id.
\<close>

definition hypotensionAlert :: "nat \<Rightarrow> formatter \<Rightarrow> VitalsData \<Rightarrow> Alert" where
  "hypotensionAlert now toFixed latest =
     \<lparr>alert_id = ''MAP_'' @ decimal now,
      alert_type = ''HYPOTENSION'',
      alert_description = ''MAP dropped to '' @ toFixed (MAP latest) 1 @ '' mmHg'',
      alert_severity = HIGH,
      alert_timestamp = timestamp latest,
      acknowledged = False\<rparr>"

definition tachycardiaAlert :: "nat \<Rightarrow> formatter \<Rightarrow> VitalsData \<Rightarrow> Alert" where
  "tachycardiaAlert now toFixed latest =
     \<lparr>alert_id = ''HR_'' @ decimal now,
      alert_type = ''TACHYCARDIA'',
      alert_description = ''Heart rate elevated to '' @ toFixed (HR latest) 0 @ '' bpm'',
      alert_severity = MEDIUM,
      alert_timestamp = timestamp latest,
      acknowledged = False\<rparr>"

definition hypoxemiaAlert :: "nat \<Rightarrow> formatter \<Rightarrow> VitalsData \<Rightarrow> Alert" where
  "hypoxemiaAlert now toFixed latest =
     \<lparr>alert_id = ''SPO2_'' @ decimal now,
      alert_type = ''HYPOXEMIA'',
      alert_description = ''SpO'' @ sub2 @ '' decreased to '' @ toFixed (SpO2 latest) 1 @ ''%'',
      alert_severity = HIGH,
      alert_timestamp = timestamp latest,
      acknowledged = False\<rparr>"

definition newAlerts :: "clock \<Rightarrow> formatter \<Rightarrow> VitalsData \<Rightarrow> Alert list" where
  "newAlerts dateNow toFixed latest =
     (let a1 = (if MAP latest < 65 then [hypotensionAlert (dateNow 0) toFixed latest] else []);
          a2 = a1 @ (if HR latest > 100
                     then [tachycardiaAlert (dateNow (length a1)) toFixed latest] else []);
          a3 = a2 @ (if SpO2 latest < 95
                     then [hypoxemiaAlert (dateNow (length a2)) toFixed latest] else [])
      in a3)"

text \<open>
  The result is the next value of the \<open>alerts\<close> state and the text handed to
  \<open>speak\<close>, if any. \<open>vitalsData[vitalsData.length - 1]\<close> is read only behind the
  length guard.
\<close>

definition checkForAlerts ::
  "clock \<Rightarrow> formatter \<Rightarrow> VitalsData list \<Rightarrow> Alert list \<Rightarrow> Alert list \<times> string option" where
  "checkForAlerts dateNow toFixed vitalsData alerts =
     (if vitalsData = [] then (alerts, None)
      else
        let latest = last vitalsData;
            new = newAlerts dateNow toFixed latest
        in if length new > 0
           then (slice_last 10 alerts @ new,
                 (case find (\<lambda>a. alert_severity a = HIGH) new of
                    Some a \<Rightarrow> Some (''Critical alert: '' @ alert_description a)
                  | None \<Rightarrow> None))
           else (alerts, None))"

subsection \<open>Multi-patient dashboard (\<open>src/components/MultiPatientDashboard.tsx\<close>)\<close>

datatype gender = M | F

datatype status = STABLE | WARNING | CRITICAL | EMERGENCY

record PatientVitals =
  v_MAP :: real
  v_HR :: real
  v_SpO2 :: real
  v_RR :: real
  v_Temp :: real
  v_EtCO2 :: real
  v_BIS :: "real option"
  v_timestamp :: nat

record PatientAlert =
  pa_id :: string
  pa_type :: string
  pa_severity :: severity
  pa_description :: string
  pa_timestamp :: nat
  pa_acknowledged :: bool

record Staff =
  surgeon :: string
  anesthesiologist :: string
  nurse :: string

record Patient =
  patient_id :: string
  name :: string
  room :: string
  age :: real
  gender :: gender
  procedure :: string
  admissionTime :: nat
  vitals :: PatientVitals
  alerts :: "PatientAlert list"
  riskScore :: real
  status :: status
  assignedStaff :: Staff

text \<open>
  \<open>generateVitals\<close> draws seven numbers from \<open>Math.random()\<close>, in the order of the
  object literal's properties, and reads the clock once; \<open>random k\<close> is the first
  draw of the call.
\<close>

definition generateVitals :: "bool \<Rightarrow> (nat \<Rightarrow> real) \<Rightarrow> nat \<Rightarrow> nat \<Rightarrow> PatientVitals" where
  "generateVitals concerning random k now =
     (let base_MAP = (if concerning then 60 else 75);
          base_HR = (if concerning then 95 else 80);
          base_SpO2 = (if concerning then 94 else 98);
          base_RR = (if concerning then 18 else 16);
          base_Temp = (if concerning then 37.2 else 36.5)
      in \<lparr>v_MAP = max 45 (base_MAP + (random k - 0.5) * 20),
          v_HR = max 50 (base_HR + (random (k + 1) - 0.5) * 30),
          v_SpO2 = min 100 (max 85 (base_SpO2 + (random (k + 2) - 0.5) * 6)),
          v_RR = max 8 (base_RR + (random (k + 3) - 0.5) * 8),
          v_Temp = max 35 (base_Temp + (random (k + 4) - 0.5) * 2),
          v_EtCO2 = 35 + (random (k + 5) - 0.5) * 10,
          v_BIS = Some (40 + random (k + 6) * 20),
          v_timestamp = now\<rparr>)"

definition calculateRiskScore :: "Patient \<Rightarrow> real" where
  "calculateRiskScore patient =
     (let score = 0;
          v = vitals patient;
          score = (if v_MAP v < 65 then score + 0.3 else score);
          score = (if v_MAP v < 55 then score + 0.2 else score);
          score = (if v_HR v > 100 then score + 0.2 else score);
          score = (if v_HR v > 120 then score + 0.2 else score);
          score = (if v_SpO2 v < 95 then score + 0.3 else score);
          score = (if v_SpO2 v < 90 then score + 0.3 else score);
          score = score + real (length (filter (\<lambda>a. \<not> pa_acknowledged a) (alerts patient))) * 0.1
      in min 1 score)"

text \<open>
  The score before clamping, as a sum of one term per threshold and per unacknowledged
  alert; \<open>calculateRiskScore\<close> is compared with \<open>min 1\<close> of it below.
\<close>

definition riskContributions :: "Patient \<Rightarrow> real" where
  "riskContributions patient =
     (if v_MAP (vitals patient) < 65 then 0.3 else 0)
     + (if v_MAP (vitals patient) < 55 then 0.2 else 0)
     + (if v_HR (vitals patient) > 100 then 0.2 else 0)
     + (if v_HR (vitals patient) > 120 then 0.2 else 0)
     + (if v_SpO2 (vitals patient) < 95 then 0.3 else 0)
     + (if v_SpO2 (vitals patient) < 90 then 0.3 else 0)
     + 0.1 * real (length (filter (\<lambda>a. \<not> pa_acknowledged a) (alerts patient)))"

text \<open>
  The 5-second tick:
  \<^verbatim>\<open>setPatients(prev => prev.map(patient => ({ ...patient,
      vitals: generateVitals(patient.status === 'CRITICAL'),
      riskScore: calculateRiskScore(patient) })))\<close>
  The patient at index \<open>i\<close> takes the draws \<open>7 * i\<close> to \<open>7 * i + 6\<close> and the
  \<open>i\<close>-th clock reading of the tick.
\<close>

definition updatePatients :: "(nat \<Rightarrow> real) \<Rightarrow> clock \<Rightarrow> Patient list \<Rightarrow> Patient list" where
  "updatePatients random dateNow prev =
     map (\<lambda>(i, patient).
            patient\<lparr>vitals := generateVitals (status patient = CRITICAL) random (7 * i) (dateNow i),
                    riskScore := calculateRiskScore patient\<rparr>)
         (enumerate 0 prev)"

text \<open>The fields of a patient other than \<open>vitals\<close> and \<open>riskScore\<close>.\<close>

definition patient_rest ::
  "Patient \<Rightarrow> string \<times> string \<times> string \<times> real \<times> gender \<times> string \<times> nat \<times> PatientAlert list \<times> status \<times> Staff" where
  "patient_rest p =
     (patient_id p, name p, room p, age p, gender p, procedure p, admissionTime p,
      alerts p, status p, assignedStaff p)"

subsection \<open>Alerts panel (\<open>src/components/AlertsPanel.tsx\<close>)\<close>

record PatientEvent =
  ev_timestamp :: string
  ev_type :: string
  ev_description :: string
  ev_severity :: string
  ev_source :: string

record ProcessedAlerts =
  active :: "PatientEvent list"
  warnings :: "PatientEvent list"
  all_recent :: "PatientEvent list"

definition getEventId :: "PatientEvent \<Rightarrow> string" where
  "getEventId event = ev_timestamp event @ ''-'' @ ev_type event @ ''-'' @ ev_description event"

text \<open>
  \<open>new Date(event.timestamp).getTime()\<close> is the host's date parser, \<open>None\<close> for an
  invalid date (whose \<open>NaN\<close> fails every comparison).
\<close>

definition isRecent :: "(string \<Rightarrow> int option) \<Rightarrow> int \<Rightarrow> PatientEvent \<Rightarrow> bool" where
  "isRecent dateParse now event =
     (case dateParse (ev_timestamp event) of
        None \<Rightarrow> False
      | Some eventTime \<Rightarrow> now - eventTime < 60 * 60 * 1000)"

text \<open>
  The memo \<open>processedAlerts\<close> is computed by the callback of a \<open>useMemo\<close> call,
  which \<open>useMemo\<close> runs during the call. In the component body the declaration
  \<open>const getEventId = ...\<close> follows that call, so while the callback runs the binding
  \<open>getEventId\<close> is not initialised and every call through it raises. The click
  handlers run after the render and use the initialised function.
\<close>

datatype render_error = ReferenceError

definition getEventId_in_memo :: "PatientEvent \<Rightarrow> render_error + string" where
  "getEventId_in_memo event = Inl ReferenceError"

text \<open>
  \<open>xs.filter(p)\<close> with a predicate that may raise: the elements are tested in order
  and the first exception ends the call.
\<close>

fun filter_raising :: "('a \<Rightarrow> render_error + bool) \<Rightarrow> 'a list \<Rightarrow> render_error + 'a list" where
  "filter_raising p [] = Inr []"
| "filter_raising p (x # xs) =
     (case p x of
        Inl err \<Rightarrow> Inl err
      | Inr keep \<Rightarrow>
          (case filter_raising p xs of
             Inl err \<Rightarrow> Inl err
           | Inr ys \<Rightarrow> Inr (if keep then x # ys else ys)))"

text \<open>
  The two predicates of the memo,
  \<^verbatim>\<open>event.severity === 'HIGH' && !acknowledgedAlerts.has(getEventId(event))\<close> and the
  same with \<open>'MEDIUM'\<close>: \<open>&&\<close> evaluates its right side only when the left is true.
\<close>

definition isActiveAlert :: "string set \<Rightarrow> PatientEvent \<Rightarrow> render_error + bool" where
  "isActiveAlert acknowledgedAlerts event =
     (if ev_severity event = ''HIGH''
      then (case getEventId_in_memo event of
              Inl err \<Rightarrow> Inl err
            | Inr eventId \<Rightarrow> Inr (\<not> eventId \<in> acknowledgedAlerts))
      else Inr False)"

definition isWarningAlert :: "string set \<Rightarrow> PatientEvent \<Rightarrow> render_error + bool" where
  "isWarningAlert acknowledgedAlerts event =
     (if ev_severity event = ''MEDIUM''
      then (case getEventId_in_memo event of
              Inl err \<Rightarrow> Inl err
            | Inr eventId \<Rightarrow> Inr (\<not> eventId \<in> acknowledgedAlerts))
      else Inr False)"

definition processedAlerts ::
  "(string \<Rightarrow> int option) \<Rightarrow> int \<Rightarrow> PatientEvent list \<Rightarrow> string set
   \<Rightarrow> render_error + ProcessedAlerts" where
  "processedAlerts dateParse now events acknowledgedAlerts =
     (let recentEvents = filter (isRecent dateParse now) events
      in case filter_raising (isActiveAlert acknowledgedAlerts) recentEvents of
           Inl err \<Rightarrow> Inl err
         | Inr activeAlerts \<Rightarrow>
             (case filter_raising (isWarningAlert acknowledgedAlerts) recentEvents of
                Inl err \<Rightarrow> Inl err
              | Inr warningAlerts \<Rightarrow>
                  Inr \<lparr>active = activeAlerts, warnings = warningAlerts,
                       all_recent = recentEvents\<rparr>))"

text \<open>
  \<^verbatim>\<open>setAcknowledgedAlerts(prev => new Set([...prev, eventId]))\<close> and
  \<^verbatim>\<open>setAcknowledgedAlerts(prev => new Set([...prev, ...allActiveIds]))\<close>, the latter
  with the memo of the render the button belongs to.
\<close>

definition acknowledgeAlert :: "PatientEvent \<Rightarrow> string set \<Rightarrow> string set" where
  "acknowledgeAlert event prev = prev \<union> {getEventId event}"

definition acknowledgeAllAlerts :: "ProcessedAlerts \<Rightarrow> string set \<Rightarrow> string set" where
  "acknowledgeAllAlerts processed prev =
     (let allActiveIds = map getEventId (active processed @ warnings processed)
      in prev \<union> set allActiveIds)"

subsection \<open>Requests and responses\<close>

text \<open>
  A \<open>fetch\<close> call is recorded as the request it sends; the body is kept as the
  object handed to \<open>JSON.stringify\<close>. The host answers with a rejected promise (a
  network failure) or a response, whose \<open>json()\<close> may itself reject.
\<close>

datatype role = User | Assistant

datatype thrown = Error string | NotAnError

record AskBody =
  query :: string
  patient_data :: string
  clinical_specialty :: string
  chat_history :: "(role \<times> string) list"

record ForecastBody =
  duration_minutes :: nat
  vitals_type :: string

datatype body = Ask AskBody | Forecast ForecastBody

record Request =
  url :: string
  http_method :: string
  headers :: "(string \<times> string) list"
  request_body :: body

datatype 'd fetch_result =
    Rejected thrown
  | Response (resp_ok: bool) (resp_status: nat) (resp_json: "thrown + 'd")

subsection \<open>Main page: chat\<close>

record MainMessage =
  m_role :: role
  m_content :: string
  m_confidence :: "real option"

record ChatState =
  chatInput :: string
  chatMessages :: "MainMessage list"
  chatLoading :: bool

text \<open>
  \<open>sendChatMessage\<close> on the main page. The \<open>try\<close> block holds one statement, the
  host call \<open>setTimeout(callback, 1000)\<close>, and sends no request. Its outcome is the
  argument \<open>thrown\<close>: \<open>None\<close> when the call returns, which leaves the callback
  pending with the question it closes over, and \<open>Some e\<close> when the block throws,
  which runs the \<open>catch\<close> clause. The second component of the result is the pending
  timeout (delay in milliseconds and captured question), the third the requests sent.
\<close>

definition sendChatMessage ::
  "trimmer \<Rightarrow> thrown option \<Rightarrow> ChatState \<Rightarrow> ChatState \<times> (nat \<times> string) option \<times> Request list" where
  "sendChatMessage trim thrown s =
     (if trim (chatInput s) = [] \<or> chatLoading s then (s, None, [])
      else
        let userMessage = \<lparr>m_role = User, m_content = trim (chatInput s), m_confidence = None\<rparr>;
            question = trim (chatInput s);
            s1 = s\<lparr>chatMessages := chatMessages s @ [userMessage],
                   chatInput := [],
                   chatLoading := True\<rparr>
        in case thrown of
             None \<Rightarrow> (s1, Some (1000, question), [])
           | Some e \<Rightarrow>
               (s1\<lparr>chatMessages := chatMessages s1 @
                      [\<lparr>m_role = Assistant,
                        m_content = ''Connection error. Please check if the backend is running.'',
                        m_confidence = None\<rparr>],
                    chatLoading := False\<rparr>,
                None, []))"

text \<open>
  \<open>s.toLowerCase()\<close> on the ASCII letters and \<open>s.includes(p)\<close> (\<open>includes_str s p\<close>).
\<close>

definition toLowerCase :: "string \<Rightarrow> string" where
  "toLowerCase s =
     map (\<lambda>c. if 65 \<le> (of_char c :: nat) \<and> (of_char c :: nat) \<le> 90
              then char_of ((of_char c :: nat) + 32) else c) s"

fun includes_str :: "string \<Rightarrow> string \<Rightarrow> bool" where
  "includes_str [] p = (p = [])"
| "includes_str (c # cs) p = (take (length p) (c # cs) = p \<or> includes_str cs p)"

text \<open>
  The callback of the timeout, one second later: it answers from the question and
  the \<open>vitals\<close> of the render that sent it, and sends no request either.
\<close>

definition simulatedResponse :: "formatter \<Rightarrow> VitalsData list \<Rightarrow> string \<Rightarrow> string" where
  "simulatedResponse toFixed vitalsData question =
     (let latest = (if length vitalsData > 0 then Some (last vitalsData) else None)
      in if includes_str (toLowerCase question) ''vitals'' \<and> latest \<noteq> None
         then (case latest of
                 None \<Rightarrow> []
               | Some l \<Rightarrow>
                   ''Current vitals: MAP '' @ toFixed (MAP l) 1 @ '' mmHg, HR '' @
                   toFixed (HR l) 0 @ '' bpm, SpO'' @ sub2 @ '' '' @ toFixed (SpO2 l) 1 @
                   ''%, RR '' @ toFixed (RR l) 0 @ ''/min, Temp '' @ toFixed (Temp l) 1 @
                   degree @ ''C. All parameters within acceptable ranges.'')
         else if includes_str (toLowerCase question) ''sepsis''
         then ''Based on current vitals, sepsis risk is low. No SIRS criteria met. Continue monitoring inflammatory markers and consider blood cultures if clinical suspicion increases.''
         else if includes_str (toLowerCase question) ''drug''
                 \<or> includes_str (toLowerCase question) ''medication''
         then ''For current patient profile, consider standard perioperative protocols. Propofol 2mg/kg for induction, maintenance with sevoflurane. Adjust based on patient response and comorbidities.''
         else ''I can help with patient monitoring, sepsis assessment, drug recommendations, and clinical decision support. What specific information do you need?'')"

definition chatTimeout :: "formatter \<Rightarrow> VitalsData list \<Rightarrow> string \<Rightarrow> ChatState \<Rightarrow> ChatState" where
  "chatTimeout toFixed vitalsData question s =
     s\<lparr>chatMessages := chatMessages s @
          [\<lparr>m_role = Assistant,
            m_content = simulatedResponse toFixed vitalsData question,
            m_confidence = Some 0.85\<rparr>],
       chatLoading := False\<rparr>"

subsection \<open>Chat panel (\<open>src/components/ChatPanel.tsx\<close>)\<close>

record ChatMessage =
  msg_id :: string
  msg_role :: role
  msg_content :: string
  msg_timestamp :: nat
  msg_confidence :: "real option"
  msg_sources :: "string list option"

record ChatPanel =
  messages :: "ChatMessage list"
  inputMessage :: string
  isLoading :: bool
  selectedContext :: string

text \<open>The reply of \<open>/api/ask\<close> as the component reads it; each field may be absent.\<close>

record AskReply =
  reply_response :: "string option"
  reply_confidence :: "real option"
  reply_sources :: "string list option"

text \<open>
  \<open>formatPatientContext\<close> reads the props \<open>vitalsData\<close> and \<open>events\<close> and the
  selected context. \<open>latest.BIS ? ... : ''\<close> is false for an absent and for a zero
  \<open>BIS\<close>.
\<close>

definition formatPatientContext ::
  "formatter \<Rightarrow> VitalsData list \<Rightarrow> PatientEvent list \<Rightarrow> string \<Rightarrow> string" where
  "formatPatientContext toFixed vitalsData events context =
     (let recentEvents = slice_last 5 events
      in if vitalsData = [] then ''No current patient data available.''
         else
           let latest = last vitalsData
           in newline @
              ''Current Patient Status:'' @ newline @
              ''- MAP: '' @ toFixed (MAP latest) 1 @ '' mmHg'' @ newline @
              ''- Heart Rate: '' @ toFixed (HR latest) 0 @ '' bpm'' @ newline @
              ''- SpO'' @ sub2 @ '': '' @ toFixed (SpO2 latest) 1 @ ''%'' @ newline @
              ''- Respiratory Rate: '' @ toFixed (RR latest) 0 @ '' /min'' @ newline @
              ''- Temperature: '' @ toFixed (Temp latest) 1 @ degree @ ''C'' @ newline @
              ''- End-tidal CO'' @ sub2 @ '': '' @ toFixed (EtCO2 latest) 1 @ '' mmHg'' @ newline @
              (case BIS latest of
                 None \<Rightarrow> []
               | Some b \<Rightarrow> if b = 0 then [] else ''- BIS: '' @ toFixed b 1) @ newline @
              newline @
              ''Recent Events:'' @ newline @
              (if length recentEvents > 0
               then join newline
                      (map (\<lambda>e. ''- '' @ ev_description e @ '' ('' @ ev_timestamp e @ '')'')
                         recentEvents)
               else ''- No recent events'') @ newline @
              newline @
              ''Clinical Context: '' @ context @ newline)"

text \<open>
  \<open>sendMessage\<close> runs in two steps around \<open>await fetch(...)\<close>. The first returns at
  the guard or appends the user's message and sends the request; \<open>messages\<close> in the
  request is the render's value, without the message just appended.
\<close>

definition askRequest ::
  "trimmer \<Rightarrow> formatter \<Rightarrow> VitalsData list \<Rightarrow> PatientEvent list \<Rightarrow> string \<Rightarrow> ChatPanel \<Rightarrow> Request" where
  "askRequest trim toFixed vitalsData events content s =
     \<lparr>url = ''/api/ask'',
      http_method = ''POST'',
      headers = [(''Content-Type'', ''application/json'')],
      request_body = Ask
        \<lparr>query = trim content,
         patient_data = formatPatientContext toFixed vitalsData events (selectedContext s),
         clinical_specialty = selectedContext s,
         chat_history = map (\<lambda>m. (msg_role m, msg_content m)) (slice_last 5 (messages s))\<rparr>\<rparr>"

definition sendMessage_begin ::
  "trimmer \<Rightarrow> clock \<Rightarrow> formatter \<Rightarrow> VitalsData list \<Rightarrow> PatientEvent list \<Rightarrow> string \<Rightarrow> ChatPanel
   \<Rightarrow> ChatPanel \<times> Request option" where
  "sendMessage_begin trim dateNow toFixed vitalsData events content s =
     (if trim content = [] \<or> isLoading s then (s, None)
      else
        let userMessage =
              \<lparr>msg_id = decimal (dateNow 0),
               msg_role = User,
               msg_content = trim content,
               msg_timestamp = dateNow 1,
               msg_confidence = None,
               msg_sources = None\<rparr>
        in (s\<lparr>messages := messages s @ [userMessage], inputMessage := [], isLoading := True\<rparr>,
            Some (askRequest trim toFixed vitalsData events content s)))"

text \<open>
  The second step is what follows the \<open>await\<close>: the reply on success, the
  \<open>catch\<close> clause on a rejected fetch, a response that is not \<open>ok\<close>, a rejected
  \<open>json()\<close> or a \<open>null\<close> body, and the \<open>finally\<close> clause in every case.
  \<open>a || b\<close> takes \<open>b\<close> for an absent value, an empty string and a zero.
\<close>

definition errorMessage :: "clock \<Rightarrow> ChatMessage" where
  "errorMessage dateNow =
     \<lparr>msg_id = decimal (dateNow 2 + 1),
      msg_role = Assistant,
      msg_content = ''I apologize, but I'' @ [CHR 0x27] @ ''m currently unable to process your request. Please check the connection and try again.'',
      msg_timestamp = dateNow 3,
      msg_confidence = Some 0.0,
      msg_sources = Some [''Error Handler'']\<rparr>"

definition assistantMessage :: "clock \<Rightarrow> AskReply \<Rightarrow> ChatMessage" where
  "assistantMessage dateNow data =
     \<lparr>msg_id = decimal (dateNow 2 + 1),
      msg_role = Assistant,
      msg_content =
        (case reply_response data of
           None \<Rightarrow> ''I apologize, but I encountered an issue processing your request.''
         | Some r \<Rightarrow>
             if r = [] then ''I apologize, but I encountered an issue processing your request.''
             else r),
      msg_timestamp = dateNow 3,
      msg_confidence =
        Some (case reply_confidence data of
                None \<Rightarrow> 0.8
              | Some c \<Rightarrow> if c = 0 then 0.8 else c),
      msg_sources =
        Some (case reply_sources data of
                None \<Rightarrow> [''Clinical AI Model'']
              | Some srcs \<Rightarrow> srcs)\<rparr>"

definition sendMessage_settle ::
  "clock \<Rightarrow> (AskReply option) fetch_result \<Rightarrow> ChatPanel \<Rightarrow> ChatPanel" where
  "sendMessage_settle dateNow result s =
     (let reply =
            (case result of
               Rejected e \<Rightarrow> errorMessage dateNow
             | Response is_ok code js \<Rightarrow>
                 if \<not> is_ok then errorMessage dateNow
                 else (case js of
                         Inl e \<Rightarrow> errorMessage dateNow
                       | Inr None \<Rightarrow> errorMessage dateNow
                       | Inr (Some data) \<Rightarrow> assistantMessage dateNow data))
      in s\<lparr>messages := messages s @ [reply], isLoading := False\<rparr>)"

text \<open>
  One call of \<open>sendMessage\<close> with nothing else scheduled in between: the state after
  it and the requests it sent. \<open>fetch\<close> is the host's answer to a request.
\<close>

definition sendMessage ::
  "trimmer \<Rightarrow> clock \<Rightarrow> formatter \<Rightarrow> (Request \<Rightarrow> (AskReply option) fetch_result)
   \<Rightarrow> VitalsData list \<Rightarrow> PatientEvent list \<Rightarrow> string \<Rightarrow> ChatPanel
   \<Rightarrow> ChatPanel \<times> Request list" where
  "sendMessage trim dateNow toFixed fetch vitalsData events content s =
     (case sendMessage_begin trim dateNow toFixed vitalsData events content s of
        (s1, None) \<Rightarrow> (s1, [])
      | (s1, Some req) \<Rightarrow> (sendMessage_settle dateNow (fetch req) s1, [req]))"

text \<open>A fetch that fails at the network: the promise is rejected, no response exists.\<close>

definition networkFailure :: "'d fetch_result \<Rightarrow> bool" where
  "networkFailure result = (case result of Rejected e \<Rightarrow> True | Response is_ok code js \<Rightarrow> False)"

subsection \<open>Risk forecast (\<open>src/components/RiskForecast.tsx\<close>)\<close>

record 'd RiskForecast =
  forecastData :: "'d option"
  loading :: bool
  error :: "string option"
  selectedMetric :: string
  autoRefresh :: bool

definition forecastRequest :: "'d RiskForecast \<Rightarrow> Request" where
  "forecastRequest s =
     \<lparr>url = ''/api/forecast'',
      http_method = ''POST'',
      headers = [(''Content-Type'', ''application/json'')],
      request_body = Forecast \<lparr>duration_minutes = 30, vitals_type = selectedMetric s\<rparr>\<rparr>"

definition errorText :: "thrown \<Rightarrow> string" where
  "errorText err = (case err of Error message \<Rightarrow> message | NotAnError \<Rightarrow> ''Failed to fetch forecast'')"

definition fetchForecast ::
  "(Request \<Rightarrow> 'd fetch_result) \<Rightarrow> 'd RiskForecast \<Rightarrow> 'd RiskForecast \<times> Request list" where
  "fetchForecast fetch s =
     (let s1 = s\<lparr>loading := True, error := None\<rparr>;
          req = forecastRequest s;
          s2 = (case fetch req of
                  Rejected err \<Rightarrow> s1\<lparr>error := Some (errorText err)\<rparr>
                | Response is_ok code js \<Rightarrow>
                    if \<not> is_ok
                    then s1\<lparr>error := Some (''HTTP error! status: '' @ decimal code)\<rparr>
                    else (case js of
                            Inl err \<Rightarrow> s1\<lparr>error := Some (errorText err)\<rparr>
                          | Inr data \<Rightarrow> s1\<lparr>forecastData := Some data\<rparr>))
      in (s2\<lparr>loading := False\<rparr>, [req]))"

subsection \<open>Interval timers\<close>

text \<open>
  The host's table of repeating timers: \<open>setInterval(f, period)\<close> registers a timer
  under a fresh id and returns the id, \<open>clearInterval(id)\<close> removes it. Periods are in
  milliseconds.
\<close>

record Timers =
  next_timer :: nat
  running :: "(nat \<times> nat) list"

definition setInterval :: "nat \<Rightarrow> Timers \<Rightarrow> nat \<times> Timers" where
  "setInterval period h =
     (next_timer h,
      h\<lparr>next_timer := next_timer h + 1, running := running h @ [(next_timer h, period)]\<rparr>)"

definition clearInterval :: "nat \<Rightarrow> Timers \<Rightarrow> Timers" where
  "clearInterval i h = h\<lparr>running := filter (\<lambda>(j, period). j \<noteq> i) (running h)\<rparr>"

text \<open>
  What a timer-creating function does to the table when it runs, and the cleanup it
  returns (\<open>None\<close> when it returns none). Each definition keeps the
  \<open>setInterval\<close> call and the returned closure of its source and leaves the timer's
  callback out.
\<close>

type_synonym timer_effect = "Timers \<Rightarrow> Timers \<times> (Timers \<Rightarrow> Timers) option"

text \<open>Main page, \<open>useHealthKit\<close>: \<open>startMonitoring\<close>, and the effect that calls it.\<close>

definition startMonitoring :: timer_effect where
  "startMonitoring h =
     (let (interval, h') = setInterval 3000 h in (h', Some (clearInterval interval)))"

definition appleWatchEffect :: "bool \<Rightarrow> timer_effect" where
  "appleWatchEffect healthKitConnected h =
     (if healthKitConnected then startMonitoring h else (h, None))"

text \<open>Main page: \<open>setInterval(fetchData, healthKitConnected ? 10000 : 5000)\<close>.\<close>

definition fetchDataEffect :: "bool \<Rightarrow> timer_effect" where
  "fetchDataEffect healthKitConnected h =
     (let (interval, h') = setInterval (if healthKitConnected then 10000 else 5000) h
      in (h', Some (clearInterval interval)))"

text \<open>Multi-patient dashboard: \<open>updateInterval\<close>.\<close>

definition updateIntervalEffect :: timer_effect where
  "updateIntervalEffect h =
     (let (updateInterval, h') = setInterval 5000 h in (h', Some (clearInterval updateInterval)))"

text \<open>Mobile app (\<open>src/mobile/MobileApp.tsx\<close>).\<close>

definition mobileAppEffect :: timer_effect where
  "mobileAppEffect h =
     (let (interval, h') = setInterval 10000 h in (h', Some (clearInterval interval)))"

text \<open>Risk forecast: the timer exists only while auto-refresh is on.\<close>

definition autoRefreshEffect :: "bool \<Rightarrow> timer_effect" where
  "autoRefreshEffect refreshing h =
     (if refreshing
      then let (interval, h') = setInterval 15000 h in (h', Some (clearInterval interval))
      else (h, None))"

text \<open>Patient summary (\<open>src/components/PatientSummary.tsx\<close>): refresh every 30 seconds.\<close>

definition patientSummaryEffect :: timer_effect where
  "patientSummaryEffect h =
     (let (interval, h') = setInterval 30000 h in (h', Some (clearInterval interval)))"

text \<open>HealthKit service (\<open>src/utils/healthkit.ts\<close>): \<open>startRealtimeStream\<close>.\<close>

definition startRealtimeStream :: timer_effect where
  "startRealtimeStream h =
     (let (interval, h') = setInterval 5000 h in (h', Some (clearInterval interval)))"

text \<open>The page written by \<open>frontend_setup_script.sh\<close>: connection test.\<close>

definition testConnectionEffect :: timer_effect where
  "testConnectionEffect h =
     (let (interval, h') = setInterval 5000 h in (h', Some (clearInterval interval)))"

text \<open>Every \<open>setInterval\<close> call of the repository, with both values of each flag.\<close>

definition timerEffects :: "timer_effect list" where
  "timerEffects =
     [startMonitoring, appleWatchEffect True, appleWatchEffect False,
      fetchDataEffect True, fetchDataEffect False,
      updateIntervalEffect, mobileAppEffect,
      autoRefreshEffect True, autoRefreshEffect False,
      patientSummaryEffect, startRealtimeStream, testConnectionEffect]"

text \<open>
  An effect behaves at \<open>h\<close> with periods from \<open>periods\<close>: it either registers
  nothing and returns no cleanup, or registers one timer with a period from the list
  and returns the cleanup that clears that timer.
\<close>

definition registers :: "nat list \<Rightarrow> timer_effect \<Rightarrow> Timers \<Rightarrow> bool" where
  "registers periods e h \<longleftrightarrow>
     e h = (h, None)
     \<or> list_ex (\<lambda>p. e h = (snd (setInterval p h), Some (clearInterval (fst (setInterval p h)))))
          periods"

text \<open>The table of a host in which no timer has been created yet.\<close>

definition noTimers :: Timers where
  "noTimers = \<lparr>next_timer = 0, running = []\<rparr>"

subsection \<open>Sample data\<close>

text \<open>
  Stand-ins for the host: its trim on ASCII strings, a clock, a number formatter, a date
  parser that knows the timestamp of the sample events and a render one minute after
  it, a random source, the clock of a dashboard tick and a host without network.
\<close>

text \<open>
  The host's \<open>trim\<close> on strings of ASCII characters, where the white space is tab,
  line feed, vertical tab, form feed, carriage return and space.
\<close>

definition isWhiteSpace :: "char \<Rightarrow> bool" where
  "isWhiteSpace c \<longleftrightarrow>
     c = CHR 0x09 \<or> c = CHR 0x0A \<or> c = CHR 0x0B \<or> c = CHR 0x0C \<or> c = CHR 0x0D \<or> c = CHR 0x20"

definition trimAscii :: trimmer where
  "trimAscii s = rev (dropWhile isWhiteSpace (rev (dropWhile isWhiteSpace s)))"

definition sampleClock :: clock where
  "sampleClock k = 1700000000000 + k"

definition sampleFormat :: formatter where
  "sampleFormat x d = ''?''"

definition sampleParse :: "string \<Rightarrow> int option" where
  "sampleParse t = (if t = ''2024-01-01T10:00:00.000Z'' then Some 1704103200000 else None)"

definition oneMinuteLater :: int where
  "oneMinuteLater = 1704103260000"

definition midpoint :: "nat \<Rightarrow> real" where
  "midpoint k = 0.5"

definition tickClock :: clock where
  "tickClock k = 5000"

definition forecastOffline :: "Request \<Rightarrow> nat fetch_result" where
  "forecastOffline req = Rejected NotAnError"

definition alert1 :: Alert where
  "alert1 = \<lparr>alert_id = ''MAP_1'', alert_type = ''HYPOTENSION'',
     alert_description = ''MAP dropped to 60.0 mmHg'', alert_severity = HIGH,
     alert_timestamp = ''t1'', acknowledged = False\<rparr>"

definition alert2 :: Alert where
  "alert2 = \<lparr>alert_id = ''HR_2'', alert_type = ''TACHYCARDIA'',
     alert_description = ''Heart rate elevated to 120 bpm'', alert_severity = MEDIUM,
     alert_timestamp = ''t2'', acknowledged = False\<rparr>"

definition event1 :: PatientEvent where
  "event1 = \<lparr>ev_timestamp = ''2024-01-01T10:00:00.000Z'', ev_type = ''HYPOTENSION'',
     ev_description = ''MAP low'', ev_severity = ''HIGH'', ev_source = ''monitor''\<rparr>"

definition event2 :: PatientEvent where
  "event2 = \<lparr>ev_timestamp = ''2024-01-01T10:00:00.000Z'', ev_type = ''TACHYCARDIA'',
     ev_description = ''HR high'', ev_severity = ''MEDIUM'', ev_source = ''monitor''\<rparr>"

definition reading_low :: VitalsData where
  "reading_low = \<lparr>timestamp = ''2024-01-01T10:00:00.000Z'', MAP = 60, HR = 110, SpO2 = 97,
     RR = 16, Temp = 98.6, EtCO2 = 38, BIS = None, source = Some ''Simulation''\<rparr>"

definition patient1 :: Patient where
  "patient1 =
     \<lparr>patient_id = ''PAT-002'', name = ''Maria Garcia'', room = ''OR-2'', age = 45, gender = F,
      procedure = ''Laparoscopic Cholecystectomy'', admissionTime = 1000,
      vitals = \<lparr>v_MAP = 50, v_HR = 125, v_SpO2 = 88, v_RR = 18, v_Temp = 37.2, v_EtCO2 = 35,
                 v_BIS = Some 45, v_timestamp = 2000\<rparr>,
      alerts = [\<lparr>pa_id = ''ALT-001'', pa_type = ''HYPOTENSION'', pa_severity = HIGH,
                  pa_description = ''MAP dropped to 58 mmHg'', pa_timestamp = 1500,
                  pa_acknowledged = False\<rparr>],
      riskScore = 0.75, status = CRITICAL,
      assignedStaff = \<lparr>surgeon = ''Dr. Johnson'', anesthesiologist = ''Dr. Lee'',
                        nurse = ''RN Thompson''\<rparr>\<rparr>"

text \<open>A chat panel and a main-page chat at rest, a host that is offline, a forecast card.\<close>

definition greeting :: ChatMessage where
  "greeting =
     \<lparr>msg_id = ''1'', msg_role = Assistant, msg_content = ''Hello!'', msg_timestamp = 0,
      msg_confidence = Some 1.0, msg_sources = Some [''OR-BIT Clinical Knowledge Base'']\<rparr>"

definition panel0 :: ChatPanel where
  "panel0 =
     \<lparr>messages = [greeting], inputMessage = [], isLoading = False,
      selectedContext = ''General OR consultation''\<rparr>"

definition chat0 :: ChatState where
  "chat0 =
     \<lparr>chatInput = '' vitals? '',
      chatMessages = [\<lparr>m_role = Assistant, m_content = ''Hello!'', m_confidence = None\<rparr>],
      chatLoading = False\<rparr>"

definition offline :: "Request \<Rightarrow> (AskReply option) fetch_result" where
  "offline req = Rejected (Error ''Failed to fetch'')"

definition forecast0 :: "nat RiskForecast" where
  "forecast0 =
     \<lparr>forecastData = None, loading = False, error = None, selectedMetric = ''MAP'',
      autoRefresh = True\<rparr>"

section \<open>Properties\<close>

subsection \<open>Array helpers\<close>

lemma length_slice_last: "length (slice_last n xs) = min n (length xs)"
  by (simp add: slice_last_def)

lemma slice_last_suffix: "\<exists>ys. xs = ys @ slice_last n xs"
  unfolding slice_last_def by (metis append_take_drop_id)

lemma slice_last_nth:
  "i < length (slice_last n xs) \<Longrightarrow> slice_last n xs ! i = xs ! (length xs - n + i)"
  by (simp add: slice_last_def)

lemma slice_last_short: "length xs \<le> n \<Longrightarrow> slice_last n xs = xs"
  by (simp add: slice_last_def)

subsection \<open>Vitals history\<close>

text \<open>
  C10. Appending a HealthKit reading yields the last 50 elements of the previous list
  followed by the new reading: the result has at most 51 elements, the new reading is
  its last element, and the retained readings are a suffix of the previous list, in
  their previous order.
\<close>

theorem vitals_history_bounded:
  "healthKitVitalsEffect (Some v) prev = slice_last 50 prev @ [v]
   \<and> slice_last 50 prev = drop (length prev - 50) prev
   \<and> length (healthKitVitalsEffect (Some v) prev) = min 50 (length prev) + 1
   \<and> length (healthKitVitalsEffect (Some v) prev) \<le> 51
   \<and> last (healthKitVitalsEffect (Some v) prev) = v
   \<and> butlast (healthKitVitalsEffect (Some v) prev) = slice_last 50 prev
   \<and> (\<exists>dropped. prev = dropped @ butlast (healthKitVitalsEffect (Some v) prev))"
  using slice_last_suffix [of prev 50]
  by (simp add: healthKitVitalsEffect_def appendReading_def length_slice_last)
    (simp add: slice_last_def)

subsection \<open>Acknowledging alerts\<close>

lemma acknowledgeAll_length: "length (acknowledgeAll xs) = length xs"
  by (simp add: acknowledgeAll_def)

lemma acknowledgeAll_nth:
  "i < length xs \<Longrightarrow> acknowledgeAll xs ! i = (xs ! i)\<lparr>acknowledged := True\<rparr>"
  by (simp add: acknowledgeAll_def)

lemma acknowledgeOne_length: "length (acknowledgeOne x xs) = length xs"
  by (simp add: acknowledgeOne_def)

lemma acknowledgeOne_nth:
  "i < length xs \<Longrightarrow>
   acknowledgeOne x xs ! i =
     (if alert_id (xs ! i) = x then (xs ! i)\<lparr>acknowledged := True\<rparr> else xs ! i)"
  by (simp add: acknowledgeOne_def)

lemma acknowledgeAll_rest: "map alert_rest (acknowledgeAll xs) = map alert_rest xs"
  by (simp add: acknowledgeAll_def alert_rest_def)

lemma acknowledgeAll_all: "list_all acknowledged (acknowledgeAll xs)"
  by (simp add: acknowledgeAll_def list_all_iff)

lemma acknowledgeOne_rest: "map alert_rest (acknowledgeOne x xs) = map alert_rest xs"
  by (simp add: acknowledgeOne_def alert_rest_def)

text \<open>
  C1. Acknowledge All on the main page returns a list of the same length in which
  every alert has \<open>acknowledged = true\<close> and every other field of every alert is as
  before.
\<close>

theorem acknowledge_all_sets_every_flag:
  "length (acknowledgeAll xs) = length xs
   \<and> list_all acknowledged (acknowledgeAll xs)
   \<and> map alert_rest (acknowledgeAll xs) = map alert_rest xs
   \<and> (\<forall>i < length xs. acknowledgeAll xs ! i = (xs ! i)\<lparr>acknowledged := True\<rparr>)"
  by (simp add: acknowledgeAll_length acknowledgeAll_all acknowledgeAll_rest acknowledgeAll_nth)

lemma acknowledgeOne_acked:
  assumes "a \<in> set (acknowledgeOne x xs)" and "alert_id a = x"
  shows "acknowledged a"
proof -
  from assms(1) obtain i where i: "i < length xs" and a: "acknowledgeOne x xs ! i = a"
    by (auto simp: in_set_conv_nth acknowledgeOne_length)
  show ?thesis
  proof (cases "alert_id (xs ! i) = x")
    case True
    with i a have "a = (xs ! i)\<lparr>acknowledged := True\<rparr>" by (simp add: acknowledgeOne_nth)
    then show ?thesis by simp
  next
    case False
    with i a have "a = xs ! i" by (simp add: acknowledgeOne_nth)
    with False assms(2) show ?thesis by simp
  qed
qed

lemma acknowledgeOne_present:
  assumes "x \<in> alert_id ` set xs"
  shows "\<exists>a \<in> set (acknowledgeOne x xs). alert_id a = x \<and> acknowledged a"
proof -
  from assms obtain b where "b \<in> set xs" and bx: "alert_id b = x" by auto
  then obtain i where i: "i < length xs" and b: "xs ! i = b"
    by (auto simp: in_set_conv_nth)
  let ?a = "acknowledgeOne x xs ! i"
  from i b bx have eq: "?a = b\<lparr>acknowledged := True\<rparr>" by (simp add: acknowledgeOne_nth)
  from i have "?a \<in> set (acknowledgeOne x xs)" by (simp add: acknowledgeOne_length)
  moreover from eq bx have "alert_id ?a = x \<and> acknowledged ?a" by simp
  ultimately show ?thesis by blast
qed


text \<open>
  C3. The ACK button of the alert with id \<open>x\<close>, for an \<open>x\<close> present in the list:
  the result has the same length; at every index an alert with id \<open>x\<close> is the old
  alert with \<open>acknowledged = true\<close> and an alert with another id is the old alert;
  the other fields of every alert are as before, in the same order.
\<close>

theorem acknowledge_one_frame:
  assumes "x \<in> alert_id ` set xs"
  shows "length (acknowledgeOne x xs) = length xs
   \<and> (\<forall>i < length xs.
         (alert_id (xs ! i) = x \<longrightarrow> acknowledgeOne x xs ! i = (xs ! i)\<lparr>acknowledged := True\<rparr>)
         \<and> (alert_id (xs ! i) \<noteq> x \<longrightarrow> acknowledgeOne x xs ! i = xs ! i))
   \<and> map alert_rest (acknowledgeOne x xs) = map alert_rest xs
   \<and> (\<exists>a \<in> set (acknowledgeOne x xs). alert_id a = x \<and> acknowledged a)
   \<and> (\<forall>a \<in> set (acknowledgeOne x xs). alert_id a = x \<longrightarrow> acknowledged a)"
proof -
  have nth: "\<forall>i < length xs.
         (alert_id (xs ! i) = x \<longrightarrow> acknowledgeOne x xs ! i = (xs ! i)\<lparr>acknowledged := True\<rparr>)
         \<and> (alert_id (xs ! i) \<noteq> x \<longrightarrow> acknowledgeOne x xs ! i = xs ! i)"
    by (simp add: acknowledgeOne_nth)
  have all: "\<forall>a \<in> set (acknowledgeOne x xs). alert_id a = x \<longrightarrow> acknowledged a"
    using acknowledgeOne_acked by blast
  from nth all acknowledgeOne_present [OF assms] show ?thesis
    by (intro conjI acknowledgeOne_length acknowledgeOne_rest)
qed

theorem acknowledge_all_witness:
  "(1::nat) < length [alert1, alert2]
   \<and> acknowledgeAll [alert1, alert2] ! 1 = alert2\<lparr>acknowledged := True\<rparr>
   \<and> length (acknowledgeAll [alert1, alert2]) = 2"
proof -
  have len: "(1::nat) < length [alert1, alert2]" by simp
  note inst = acknowledge_all_sets_every_flag [of "[alert1, alert2]"]
  from inst len
  have "acknowledgeAll [alert1, alert2] ! 1 = ([alert1, alert2] ! 1)\<lparr>acknowledged := True\<rparr>"
    by blast
  moreover from inst have "length (acknowledgeAll [alert1, alert2]) = 2" by simp
  ultimately show ?thesis using len by simp
qed

theorem acknowledge_one_witness:
  "''HR_2'' \<in> alert_id ` set [alert1, alert2]
   \<and> acknowledgeOne ''HR_2'' [alert1, alert2] = [alert1, alert2\<lparr>acknowledged := True\<rparr>]"
proof -
  have pres: "''HR_2'' \<in> alert_id ` set [alert1, alert2]"
    by (simp add: alert1_def alert2_def)
  have id1: "alert_id ([alert1, alert2] ! 0) \<noteq> ''HR_2''" by (simp add: alert1_def)
  have id2: "alert_id ([alert1, alert2] ! 1) = ''HR_2''" by (simp add: alert2_def)
  note inst = acknowledge_one_frame [OF pres]
  from inst have len: "length (acknowledgeOne ''HR_2'' [alert1, alert2]) = 2" by simp
  from inst id1 have n0: "acknowledgeOne ''HR_2'' [alert1, alert2] ! 0 = alert1"
    by (metis length_greater_0_conv list.distinct(1) nth_Cons_0)
  from inst id2 have n1: "acknowledgeOne ''HR_2'' [alert1, alert2] ! 1 = alert2\<lparr>acknowledged := True\<rparr>"
    by (metis One_nat_def length_Cons lessI list.size(3) nth_Cons_0 nth_Cons_Suc)
  have "acknowledgeOne ''HR_2'' [alert1, alert2] = [alert1, alert2\<lparr>acknowledged := True\<rparr>]"
    using len n0 n1 by (intro nth_equalityI) (auto simp: less_Suc_eq numeral_2_eq_2)
  with pres show ?thesis by simp
qed

subsection \<open>Alert generation\<close>

lemma newAlerts_eq:
  "newAlerts dateNow toFixed latest =
     (if MAP latest < 65 then [hypotensionAlert (dateNow 0) toFixed latest] else [])
     @ (if HR latest > 100
        then [tachycardiaAlert (dateNow (if MAP latest < 65 then 1 else 0)) toFixed latest]
        else [])
     @ (if SpO2 latest < 95
        then [hypoxemiaAlert
                (dateNow ((if MAP latest < 65 then 1 else 0) + (if HR latest > 100 then 1 else 0)))
                toFixed latest]
        else [])"
  by (simp add: newAlerts_def Let_def)

lemma alert_kinds:
  "alert_type (hypotensionAlert n f l) = ''HYPOTENSION''"
  "alert_severity (hypotensionAlert n f l) = HIGH"
  "alert_type (tachycardiaAlert n f l) = ''TACHYCARDIA''"
  "alert_severity (tachycardiaAlert n f l) = MEDIUM"
  "alert_type (hypoxemiaAlert n f l) = ''HYPOXEMIA''"
  "alert_severity (hypoxemiaAlert n f l) = HIGH"
  "\<not> acknowledged (hypotensionAlert n f l)"
  "\<not> acknowledged (tachycardiaAlert n f l)"
  "\<not> acknowledged (hypoxemiaAlert n f l)"
  "alert_timestamp (hypotensionAlert n f l) = timestamp l"
  "alert_timestamp (tachycardiaAlert n f l) = timestamp l"
  "alert_timestamp (hypoxemiaAlert n f l) = timestamp l"
  by (simp_all add: hypotensionAlert_def tachycardiaAlert_def hypoxemiaAlert_def)

lemma newAlerts_hypotension:
  "(\<exists>a \<in> set (newAlerts dateNow toFixed latest).
      alert_type a = ''HYPOTENSION'' \<and> alert_severity a = HIGH) \<longleftrightarrow> MAP latest < 65"
  by (simp add: newAlerts_eq alert_kinds)

lemma newAlerts_tachycardia:
  "(\<exists>a \<in> set (newAlerts dateNow toFixed latest).
      alert_type a = ''TACHYCARDIA'' \<and> alert_severity a = MEDIUM) \<longleftrightarrow> HR latest > 100"
  by (simp add: newAlerts_eq alert_kinds)

lemma newAlerts_hypoxemia:
  "(\<exists>a \<in> set (newAlerts dateNow toFixed latest).
      alert_type a = ''HYPOXEMIA'' \<and> alert_severity a = HIGH) \<longleftrightarrow> SpO2 latest < 95"
  by (simp add: newAlerts_eq alert_kinds)

lemma newAlerts_length:
  "length (newAlerts dateNow toFixed latest) =
     (if MAP latest < 65 then 1 else 0) + (if HR latest > 100 then 1 else 0)
     + (if SpO2 latest < 95 then 1 else 0)"
  by (simp add: newAlerts_eq)

lemma newAlerts_fresh:
  "a \<in> set (newAlerts dateNow toFixed latest) \<Longrightarrow>
     \<not> acknowledged a \<and> alert_timestamp a = timestamp latest"
  by (auto simp: newAlerts_eq alert_kinds split: if_splits)

lemma checkForAlerts_state:
  "vitalsData \<noteq> [] \<Longrightarrow>
   fst (checkForAlerts dateNow toFixed vitalsData prev) =
     (if newAlerts dateNow toFixed (last vitalsData) = [] then prev
      else slice_last 10 prev @ newAlerts dateNow toFixed (last vitalsData))"
  by (simp add: checkForAlerts_def Let_def)

text \<open>
  C2. For an empty vitals list \<open>checkForAlerts\<close> returns the alert state as it was and
  creates nothing. For a non-empty list it looks at the last reading only: the alerts it
  creates contain a HIGH HYPOTENSION alert iff \<open>MAP < 65\<close>, a MEDIUM TACHYCARDIA
  alert iff \<open>HR > 100\<close> and a HIGH HYPOXEMIA alert iff \<open>SpO2 < 95\<close>, one alert per
  breached threshold and no other; each is unacknowledged and carries the reading's
  timestamp. The created alerts are appended to the last ten of the previous state in
  the same call.
\<close>

theorem checkForAlerts_thresholds:
  "checkForAlerts dateNow toFixed [] prev = (prev, None)
   \<and> (vitalsData \<noteq> [] \<longrightarrow>
        fst (checkForAlerts dateNow toFixed vitalsData prev) =
          (if newAlerts dateNow toFixed (last vitalsData) = [] then prev
           else slice_last 10 prev @ newAlerts dateNow toFixed (last vitalsData))
        \<and> ((\<exists>a \<in> set (newAlerts dateNow toFixed (last vitalsData)).
               alert_type a = ''HYPOTENSION'' \<and> alert_severity a = HIGH)
             \<longleftrightarrow> MAP (last vitalsData) < 65)
        \<and> ((\<exists>a \<in> set (newAlerts dateNow toFixed (last vitalsData)).
               alert_type a = ''TACHYCARDIA'' \<and> alert_severity a = MEDIUM)
             \<longleftrightarrow> HR (last vitalsData) > 100)
        \<and> ((\<exists>a \<in> set (newAlerts dateNow toFixed (last vitalsData)).
               alert_type a = ''HYPOXEMIA'' \<and> alert_severity a = HIGH)
             \<longleftrightarrow> SpO2 (last vitalsData) < 95)
        \<and> length (newAlerts dateNow toFixed (last vitalsData)) =
             (if MAP (last vitalsData) < 65 then 1 else 0)
             + (if HR (last vitalsData) > 100 then 1 else 0)
             + (if SpO2 (last vitalsData) < 95 then 1 else 0)
        \<and> (\<forall>a \<in> set (newAlerts dateNow toFixed (last vitalsData)).
              \<not> acknowledged a \<and> alert_timestamp a = timestamp (last vitalsData)))"
proof -
  have nil: "checkForAlerts dateNow toFixed [] prev = (prev, None)"
    by (simp add: checkForAlerts_def)
  have fresh: "\<forall>a \<in> set (newAlerts dateNow toFixed (last vitalsData)).
      \<not> acknowledged a \<and> alert_timestamp a = timestamp (last vitalsData)"
    using newAlerts_fresh by blast
  show ?thesis
    using nil fresh checkForAlerts_state [of vitalsData dateNow toFixed prev]
      newAlerts_hypotension [of dateNow toFixed "last vitalsData"]
      newAlerts_tachycardia [of dateNow toFixed "last vitalsData"]
      newAlerts_hypoxemia [of dateNow toFixed "last vitalsData"]
      newAlerts_length [of dateNow toFixed "last vitalsData"]
    by blast
qed


theorem checkForAlerts_witness:
  "[reading_low] \<noteq> []
   \<and> MAP (last [reading_low]) < 65 \<and> HR (last [reading_low]) > 100
   \<and> \<not> SpO2 (last [reading_low]) < 95
   \<and> length (newAlerts sampleClock sampleFormat (last [reading_low])) = 2
   \<and> fst (checkForAlerts sampleClock sampleFormat [reading_low] []) =
       newAlerts sampleClock sampleFormat (last [reading_low])"
proof -
  have ne: "[reading_low] \<noteq> []" by simp
  have vals: "MAP (last [reading_low]) < 65" "HR (last [reading_low]) > 100"
    "\<not> SpO2 (last [reading_low]) < 95"
    by (simp_all add: reading_low_def)
  note inst = checkForAlerts_thresholds
    [of sampleClock sampleFormat "[]" "[reading_low]"]
  from inst ne vals
  have len: "length (newAlerts sampleClock sampleFormat (last [reading_low])) = 2"
    by simp
  then have "newAlerts sampleClock sampleFormat (last [reading_low]) \<noteq> []"
    by auto
  with inst ne
  have "fst (checkForAlerts sampleClock sampleFormat [reading_low] []) =
       newAlerts sampleClock sampleFormat (last [reading_low])"
    by (simp add: slice_last_def)
  with ne vals len show ?thesis by simp
qed

subsection \<open>Risk score\<close>

lemma if_add_right: "(if b then s + c else s) = s + (if b then c else (0::real))"
  by simp

lemma calculateRiskScore_eq: "calculateRiskScore p = min 1 (riskContributions p)"
  unfolding calculateRiskScore_def riskContributions_def Let_def if_add_right
  by (simp add: algebra_simps split del: if_split)

lemma riskContributions_nonneg: "0 \<le> riskContributions p"
  unfolding riskContributions_def by (intro add_nonneg_nonneg) simp_all

text \<open>
  C8. \<open>calculateRiskScore\<close> returns \<open>min 1\<close> of the sum of its contributions (0.3
  and 0.2 for low MAP, 0.2 and 0.2 for high HR, 0.3 and 0.3 for low SpO2, 0.1 for each
  unacknowledged alert); the sum is never negative, so the result lies in \<open>[0, 1]\<close>
  for every patient.
\<close>

theorem calculateRiskScore_bounds:
  "0 \<le> calculateRiskScore p \<and> calculateRiskScore p \<le> 1
   \<and> calculateRiskScore p = min 1 (riskContributions p)
   \<and> 0 \<le> riskContributions p"
  using riskContributions_nonneg [of p] by (simp add: calculateRiskScore_eq)

lemma calculateRiskScore_patient1: "calculateRiskScore patient1 = 1"
  by (simp add: calculateRiskScore_eq riskContributions_def patient1_def)

subsection \<open>Dashboard tick\<close>

lemma updatePatients_length: "length (updatePatients random dateNow prev) = length prev"
  by (simp add: updatePatients_def)

lemma updatePatients_nth:
  "i < length prev \<Longrightarrow>
   updatePatients random dateNow prev ! i =
     (prev ! i)\<lparr>vitals := generateVitals (status (prev ! i) = CRITICAL) random (7 * i) (dateNow i),
               riskScore := calculateRiskScore (prev ! i)\<rparr>"
  by (simp add: updatePatients_def nth_enumerate_eq)

lemma updatePatients_rest:
  "map patient_rest (updatePatients random dateNow prev) = map patient_rest prev"
proof (rule nth_equalityI)
  show "length (map patient_rest (updatePatients random dateNow prev)) = length (map patient_rest prev)"
    by (simp add: updatePatients_length)
next
  fix i assume "i < length (map patient_rest (updatePatients random dateNow prev))"
  then have i: "i < length prev" by (simp add: updatePatients_length)
  then show "map patient_rest (updatePatients random dateNow prev) ! i = map patient_rest prev ! i"
    by (simp add: updatePatients_length updatePatients_nth patient_rest_def)
qed

text \<open>
  C4. A tick of the dashboard returns as many patients as before, in the same order;
  the patient at each index is the old one with new \<open>vitals\<close> and \<open>riskScore\<close>, so
  its id, name, room, age, gender, procedure, admissionTime, alerts, status and
  assignedStaff are the old ones.
\<close>

theorem updatePatients_frame:
  "length (updatePatients random dateNow prev) = length prev
   \<and> map patient_rest (updatePatients random dateNow prev) = map patient_rest prev
   \<and> (\<forall>i < length prev.
         updatePatients random dateNow prev ! i =
           (prev ! i)\<lparr>vitals := generateVitals (status (prev ! i) = CRITICAL) random (7 * i) (dateNow i),
                     riskScore := calculateRiskScore (prev ! i)\<rparr>)"
  by (simp add: updatePatients_length updatePatients_rest updatePatients_nth)

theorem updatePatients_witness:
  "(0::nat) < length [patient1]
   \<and> length (updatePatients midpoint tickClock [patient1]) = 1
   \<and> patient_rest (updatePatients midpoint tickClock [patient1] ! 0) = patient_rest patient1
   \<and> riskScore (updatePatients midpoint tickClock [patient1] ! 0) = 1
   \<and> v_MAP (vitals (updatePatients midpoint tickClock [patient1] ! 0)) = 60"
proof -
  have len: "(0::nat) < length [patient1]" by simp
  note inst = updatePatients_frame [of midpoint tickClock "[patient1]"]
  from inst len
  have eq: "updatePatients midpoint tickClock [patient1] ! 0 =
      patient1\<lparr>vitals := generateVitals (status patient1 = CRITICAL) midpoint (7 * 0) (tickClock 0),
               riskScore := calculateRiskScore patient1\<rparr>"
    by simp
  have crit: "status patient1 = CRITICAL" by (simp add: patient1_def)
  from inst have l: "length (updatePatients midpoint tickClock [patient1]) = 1" by simp
  show ?thesis
    using len l eq
    by (simp add: patient_rest_def calculateRiskScore_patient1 crit generateVitals_def
        midpoint_def tickClock_def)
qed

subsection \<open>Alerts panel: the memo of a render\<close>

text \<open>The two click handlers only add ids to the set.\<close>

lemma acknowledgeAlert_mono: "acked \<subseteq> acknowledgeAlert e acked"
  by (auto simp: acknowledgeAlert_def)

lemma acknowledgeAlert_member: "getEventId e \<in> acknowledgeAlert e acked"
  by (simp add: acknowledgeAlert_def)

lemma acknowledgeAllAlerts_mono: "acked \<subseteq> acknowledgeAllAlerts p acked"
  by (auto simp: acknowledgeAllAlerts_def)

lemma acknowledgeAllAlerts_member:
  "e \<in> set (active p) \<union> set (warnings p) \<Longrightarrow> getEventId e \<in> acknowledgeAllAlerts p acked"
  by (auto simp: acknowledgeAllAlerts_def)

lemma filter_raising_active:
  "filter_raising (isActiveAlert acked) xs =
     (if list_ex (\<lambda>e. ev_severity e = ''HIGH'') xs then Inl ReferenceError else Inr [])"
  by (induction xs) (simp_all add: isActiveAlert_def getEventId_in_memo_def)

lemma filter_raising_warning:
  "filter_raising (isWarningAlert acked) xs =
     (if list_ex (\<lambda>e. ev_severity e = ''MEDIUM'') xs then Inl ReferenceError else Inr [])"
  by (induction xs) (simp_all add: isWarningAlert_def getEventId_in_memo_def)

lemma processedAlerts_eq:
  "processedAlerts dp now events acked =
     (if list_ex (\<lambda>e. ev_severity e = ''HIGH'' \<or> ev_severity e = ''MEDIUM'')
           (filter (isRecent dp now) events)
      then Inl ReferenceError
      else Inr \<lparr>active = [], warnings = [], all_recent = filter (isRecent dp now) events\<rparr>)"
  by (auto simp: processedAlerts_def Let_def filter_raising_active filter_raising_warning
      list_ex_iff)

lemma processedAlerts_lists_empty:
  "processedAlerts dp now events acked = Inr shown \<Longrightarrow> active shown = [] \<and> warnings shown = []"
  by (auto simp: processedAlerts_eq split: if_splits)

lemma recent_events_example:
  "filter (isRecent sampleParse oneMinuteLater) [event1, event2] = [event1, event2]"
  by (simp add: isRecent_def sampleParse_def oneMinuteLater_def event1_def event2_def)

text \<open>
  C9. The handlers only add ids to \<open>acknowledgedAlerts\<close>, and the memo's filters are
  written to leave out every event whose id is in the set. The component as declared
  does not get that far: with a recent HIGH (or MEDIUM) event among its props the
  render raises at \<open>getEventId\<close>, before the event is acknowledged and after its id
  has been put into the set alike, so there is no active or warnings list the event
  could be missing from, and no button to acknowledge it with.
\<close>

theorem alerts_panel_render_raises:
  "processedAlerts sampleParse oneMinuteLater [event1, event2] {} = Inl ReferenceError
   \<and> processedAlerts sampleParse oneMinuteLater [event1, event2] (acknowledgeAlert event1 {}) =
       Inl ReferenceError
   \<and> processedAlerts sampleParse oneMinuteLater [event2] {} = Inl ReferenceError"
  by (simp add: processedAlerts_eq isRecent_def sampleParse_def oneMinuteLater_def
      event1_def event2_def)

subsection \<open>Chat: failures and requests\<close>

lemma sendMessage_guarded:
  "trim content = [] \<or> isLoading s \<Longrightarrow>
   sendMessage trim dateNow toFixed fetch vitalsData events content s = (s, [])"
  by (simp add: sendMessage_def sendMessage_begin_def)

lemma sendMessage_sends:
  "trim content \<noteq> [] \<Longrightarrow> \<not> isLoading s \<Longrightarrow>
   snd (sendMessage trim dateNow toFixed fetch vitalsData events content s) =
     [askRequest trim toFixed vitalsData events content s]"
  by (simp add: sendMessage_def sendMessage_begin_def Let_def)

lemma sendMessage_failure:
  "trim content \<noteq> [] \<Longrightarrow> \<not> isLoading s \<Longrightarrow>
   networkFailure (fetch (askRequest trim toFixed vitalsData events content s)) \<Longrightarrow>
   sendMessage trim dateNow toFixed fetch vitalsData events content s =
     (s\<lparr>messages := messages s @
           [\<lparr>msg_id = decimal (dateNow 0), msg_role = User, msg_content = trim content,
             msg_timestamp = dateNow 1, msg_confidence = None, msg_sources = None\<rparr>,
            errorMessage dateNow],
         inputMessage := [],
         isLoading := False\<rparr>,
      [askRequest trim toFixed vitalsData events content s])"
  by (cases "fetch (askRequest trim toFixed vitalsData events content s)")
    (simp_all add: sendMessage_def sendMessage_begin_def sendMessage_settle_def Let_def
      networkFailure_def)

lemma errorMessage_fields:
  "msg_role (errorMessage dateNow) = Assistant"
  "msg_content (errorMessage dateNow) =
     ''I apologize, but I'' @ [CHR 0x27] @ ''m currently unable to process your request. Please check the connection and try again.''"
  by (simp_all add: errorMessage_def)

lemma sendChatMessage_failure:
  "trim (chatInput c) \<noteq> [] \<Longrightarrow> \<not> chatLoading c \<Longrightarrow>
   sendChatMessage trim (Some e) c =
     (c\<lparr>chatMessages := chatMessages c @
           [\<lparr>m_role = User, m_content = trim (chatInput c), m_confidence = None\<rparr>,
            \<lparr>m_role = Assistant,
             m_content = ''Connection error. Please check if the backend is running.'',
             m_confidence = None\<rparr>],
         chatInput := [],
         chatLoading := False\<rparr>,
      None, [])"
  by (simp add: sendChatMessage_def Let_def)

lemma trim_vitals: "trimAscii '' vitals? '' = ''vitals?''"
  by (simp add: trimAscii_def isWhiteSpace_def)

lemma sendChatMessage_pending:
  "trim (chatInput c) \<noteq> [] \<Longrightarrow> \<not> chatLoading c \<Longrightarrow>
   sendChatMessage trim None c =
     (c\<lparr>chatMessages := chatMessages c @
           [\<lparr>m_role = User, m_content = trim (chatInput c), m_confidence = None\<rparr>],
         chatInput := [],
         chatLoading := True\<rparr>,
      Some (1000, trim (chatInput c)), [])"
  by (simp add: sendChatMessage_def Let_def)

lemma sendChatMessage_no_request: "snd (snd (sendChatMessage trim thrown c)) = []"
  by (simp add: sendChatMessage_def Let_def split: option.splits)

lemma sendChatMessage_scheduled:
  "sendChatMessage trimAscii None chat0 =
     (\<lparr>chatInput = [],
       chatMessages = [\<lparr>m_role = Assistant, m_content = ''Hello!'', m_confidence = None\<rparr>,
                       \<lparr>m_role = User, m_content = ''vitals?'', m_confidence = None\<rparr>],
       chatLoading = True\<rparr>,
      Some (1000, ''vitals?''), [])"
  by (simp add: sendChatMessage_def Let_def chat0_def trim_vitals)

lemma toLowerCase_vitals: "toLowerCase ''vitals?'' = ''vitals?''"
  by (simp add: toLowerCase_def)

lemma simulatedResponse_vitals:
  "simulatedResponse sampleFormat [] ''vitals?'' =
     ''I can help with patient monitoring, sepsis assessment, drug recommendations, and clinical decision support. What specific information do you need?''"
  by (simp add: simulatedResponse_def toLowerCase_vitals)

text \<open>
  C5, as stated, fails on the main page, whose chat makes no fetch call: a send
  schedules a timeout and sends no request, and the timeout's callback appends a
  simulated reply. With the backend unreachable the run is the same, and no
  \<open>Connection error\<close> message appears.
\<close>

theorem main_chat_without_fetch:
  "snd (snd (sendChatMessage trimAscii None chat0)) = []
   \<and> map m_content
        (chatMessages (chatTimeout sampleFormat [] ''vitals?'' (fst (sendChatMessage trimAscii None chat0)))) =
       [''Hello!'', ''vitals?'',
        ''I can help with patient monitoring, sepsis assessment, drug recommendations, and clinical decision support. What specific information do you need?'']
   \<and> ''Connection error. Please check if the backend is running.''
       \<notin> set (map m_content
             (chatMessages (chatTimeout sampleFormat [] ''vitals?''
                (fst (sendChatMessage trimAscii None chat0)))))"
  by (simp add: sendChatMessage_scheduled chatTimeout_def simulatedResponse_vitals)

text \<open>
  C5, amended. When the fetch of a chat-panel send is rejected, \<open>sendMessage\<close> ends
  with the previous messages, the user's message and exactly one assistant message
  with the fixed apology text, the loading flag cleared and one request sent in all
  (no second attempt). On the main page \<open>sendChatMessage\<close> sends no request,
  whatever happens. When its \<open>try\<close> block (the \<open>setTimeout\<close> call) returns, the
  user's message is appended, the loading flag is set and the timeout is pending; when
  the block throws, the \<open>catch\<close> clause leaves the previous messages, the user's
  message and exactly one assistant message with the text
  \<open>Connection error. Please check if the backend is running.\<close>, the loading flag
  cleared and no pending timeout.
\<close>

theorem chat_failure_fallback:
  "(trim content \<noteq> [] \<and> \<not> isLoading s
     \<and> networkFailure (fetch (askRequest trim toFixed vitalsData events content s)) \<longrightarrow>
      sendMessage trim dateNow toFixed fetch vitalsData events content s =
        (s\<lparr>messages := messages s @
              [\<lparr>msg_id = decimal (dateNow 0), msg_role = User, msg_content = trim content,
                msg_timestamp = dateNow 1, msg_confidence = None, msg_sources = None\<rparr>,
               errorMessage dateNow],
            inputMessage := [],
            isLoading := False\<rparr>,
         [askRequest trim toFixed vitalsData events content s]))
   \<and> msg_role (errorMessage dateNow) = Assistant
   \<and> msg_content (errorMessage dateNow) =
       ''I apologize, but I'' @ [CHR 0x27] @ ''m currently unable to process your request. Please check the connection and try again.''
   \<and> (trim (chatInput c) \<noteq> [] \<and> \<not> chatLoading c \<longrightarrow>
        sendChatMessage trim (Some e) c =
          (c\<lparr>chatMessages := chatMessages c @
                [\<lparr>m_role = User, m_content = trim (chatInput c), m_confidence = None\<rparr>,
                 \<lparr>m_role = Assistant,
                  m_content = ''Connection error. Please check if the backend is running.'',
                  m_confidence = None\<rparr>],
              chatInput := [],
              chatLoading := False\<rparr>,
           None, []))
   \<and> (trim (chatInput c) \<noteq> [] \<and> \<not> chatLoading c \<longrightarrow>
        sendChatMessage trim None c =
          (c\<lparr>chatMessages := chatMessages c @
                [\<lparr>m_role = User, m_content = trim (chatInput c), m_confidence = None\<rparr>],
              chatInput := [],
              chatLoading := True\<rparr>,
           Some (1000, trim (chatInput c)), []))
   \<and> snd (snd (sendChatMessage trim thrown c)) = []"
  using sendMessage_failure [of trim content s fetch toFixed vitalsData events dateNow]
    sendChatMessage_failure [of trim c e] sendChatMessage_pending [of trim c]
  by (simp add: errorMessage_fields sendChatMessage_no_request)

lemma trim_hello: "trimAscii ''  Why is MAP dropping? '' = ''Why is MAP dropping?''"
  by (simp add: trimAscii_def isWhiteSpace_def)

lemma trim_blank: "trimAscii ''   '' = []"
  by (simp add: trimAscii_def isWhiteSpace_def)

theorem chat_failure_witness:
  "trimAscii ''  Why is MAP dropping? '' \<noteq> [] \<and> \<not> isLoading panel0
   \<and> networkFailure (offline (askRequest trimAscii sampleFormat [] [] ''  Why is MAP dropping? '' panel0))
   \<and> map msg_content
        (messages (fst (sendMessage trimAscii sampleClock sampleFormat offline [] []
                          ''  Why is MAP dropping? '' panel0))) =
       [''Hello!'', ''Why is MAP dropping?'',
        ''I apologize, but I'' @ [CHR 0x27] @ ''m currently unable to process your request. Please check the connection and try again.'']
   \<and> \<not> isLoading (fst (sendMessage trimAscii sampleClock sampleFormat offline [] []
                          ''  Why is MAP dropping? '' panel0))
   \<and> length (snd (sendMessage trimAscii sampleClock sampleFormat offline [] []
                          ''  Why is MAP dropping? '' panel0)) = 1
   \<and> trimAscii (chatInput chat0) \<noteq> [] \<and> \<not> chatLoading chat0
   \<and> map m_content (chatMessages (fst (sendChatMessage trimAscii (Some NotAnError) chat0))) =
       [''Hello!'', ''vitals?'', ''Connection error. Please check if the backend is running.'']
   \<and> \<not> chatLoading (fst (sendChatMessage trimAscii (Some NotAnError) chat0))"
proof -
  have g1: "trimAscii ''  Why is MAP dropping? '' \<noteq> []" by (simp add: trim_hello)
  have g2: "\<not> isLoading panel0" by (simp add: panel0_def)
  have g3: "networkFailure (offline (askRequest trimAscii sampleFormat [] [] ''  Why is MAP dropping? '' panel0))"
    by (simp add: networkFailure_def offline_def)
  have g4: "trimAscii (chatInput chat0) \<noteq> []" by (simp add: chat0_def trim_vitals)
  have g5: "\<not> chatLoading chat0" by (simp add: chat0_def)
  note inst = chat_failure_fallback
    [of trimAscii "''  Why is MAP dropping? ''" panel0 offline sampleFormat "[]" "[]"
        sampleClock chat0 NotAnError "Some NotAnError"]
  from inst g1 g2 g3 have a: "sendMessage trimAscii sampleClock sampleFormat offline [] []
        ''  Why is MAP dropping? '' panel0 =
        (panel0\<lparr>messages := messages panel0 @
              [\<lparr>msg_id = decimal (sampleClock 0), msg_role = User,
                msg_content = trimAscii ''  Why is MAP dropping? '',
                msg_timestamp = sampleClock 1, msg_confidence = None, msg_sources = None\<rparr>,
               errorMessage sampleClock],
            inputMessage := [],
            isLoading := False\<rparr>,
         [askRequest trimAscii sampleFormat [] [] ''  Why is MAP dropping? '' panel0])"
    by blast
  from inst g4 g5 have b: "sendChatMessage trimAscii (Some NotAnError) chat0 =
          (chat0\<lparr>chatMessages := chatMessages chat0 @
                [\<lparr>m_role = User, m_content = trimAscii (chatInput chat0), m_confidence = None\<rparr>,
                 \<lparr>m_role = Assistant,
                  m_content = ''Connection error. Please check if the backend is running.'',
                  m_confidence = None\<rparr>],
              chatInput := [],
              chatLoading := False\<rparr>,
           None, [])"
    by blast
  from inst have c: "msg_content (errorMessage sampleClock) =
       ''I apologize, but I'' @ [CHR 0x27] @ ''m currently unable to process your request. Please check the connection and try again.''"
    by blast
  have m0: "map msg_content (messages panel0) = [''Hello!'']"
    by (simp add: panel0_def greeting_def)
  have c0: "map m_content (chatMessages chat0) = [''Hello!'']" "trimAscii (chatInput chat0) = ''vitals?''"
    by (simp_all add: chat0_def trim_vitals)
  show ?thesis
    unfolding a b
    using g1 g2 g3 g4 g5 by (simp add: m0 c0 c trim_hello)
qed

lemma askRequest_fields:
  "url (askRequest trim toFixed vitalsData events content s) = ''/api/ask''"
  "http_method (askRequest trim toFixed vitalsData events content s) = ''POST''"
  "request_body (askRequest trim toFixed vitalsData events content s) =
     Ask \<lparr>query = trim content,
          patient_data = formatPatientContext toFixed vitalsData events (selectedContext s),
          clinical_specialty = selectedContext s,
          chat_history = map (\<lambda>m. (msg_role m, msg_content m)) (slice_last 5 (messages s))\<rparr>"
  by (simp_all add: askRequest_def)

lemma fetchForecast_sends: "snd (fetchForecast fetch f) = [forecastRequest f]"
  by (simp add: fetchForecast_def Let_def)

lemma forecastRequest_fields:
  "url (forecastRequest f) = ''/api/forecast''"
  "http_method (forecastRequest f) = ''POST''"
  "request_body (forecastRequest f) =
     Forecast \<lparr>duration_minutes = 30, vitals_type = selectedMetric f\<rparr>"
  by (simp_all add: forecastRequest_def)

text \<open>
  C7, as stated, fails at the guard of \<open>sendMessage\<close>: a blank message (and any
  message while a reply is awaited) sends no request.
\<close>

theorem blank_message_sends_nothing:
  "trimAscii ''   '' = []
   \<and> snd (sendMessage trimAscii sampleClock sampleFormat offline [] [] ''   '' panel0) = []
   \<and> length (snd (sendMessage trimAscii sampleClock sampleFormat offline [] [] ''   '' panel0)) \<noteq> 1"
  by (simp add: sendMessage_guarded trim_blank)

text \<open>
  C7, amended. \<open>sendMessage\<close> with a message that is not blank, while no reply is
  awaited, sends exactly one request, whatever the host answers: a POST to
  \<open>/api/ask\<close> whose body carries the trimmed message as \<open>query\<close> and the formatted
  patient context as \<open>patient_data\<close>; with a blank message or while a reply is
  awaited it sends nothing and leaves the state as it is. \<open>fetchForecast\<close> always
  sends exactly one request: a POST to \<open>/api/forecast\<close> with
  \<open>duration_minutes = 30\<close>.
\<close>

theorem chat_and_forecast_requests:
  "(trim content \<noteq> [] \<and> \<not> isLoading s \<longrightarrow>
      snd (sendMessage trim dateNow toFixed fetch vitalsData events content s) =
        [askRequest trim toFixed vitalsData events content s])
   \<and> (trim content = [] \<or> isLoading s \<longrightarrow>
        sendMessage trim dateNow toFixed fetch vitalsData events content s = (s, []))
   \<and> url (askRequest trim toFixed vitalsData events content s) = ''/api/ask''
   \<and> http_method (askRequest trim toFixed vitalsData events content s) = ''POST''
   \<and> request_body (askRequest trim toFixed vitalsData events content s) =
       Ask \<lparr>query = trim content,
            patient_data = formatPatientContext toFixed vitalsData events (selectedContext s),
            clinical_specialty = selectedContext s,
            chat_history = map (\<lambda>m. (msg_role m, msg_content m)) (slice_last 5 (messages s))\<rparr>
   \<and> snd (fetchForecast fetch' f) = [forecastRequest f]
   \<and> url (forecastRequest f) = ''/api/forecast''
   \<and> http_method (forecastRequest f) = ''POST''
   \<and> request_body (forecastRequest f) =
       Forecast \<lparr>duration_minutes = 30, vitals_type = selectedMetric f\<rparr>"
  using sendMessage_sends [of trim content s dateNow toFixed fetch vitalsData events]
    sendMessage_guarded [of trim content s dateNow toFixed fetch vitalsData events]
  by (simp add: askRequest_fields fetchForecast_sends forecastRequest_fields)

theorem chat_and_forecast_witness:
  "trimAscii ''  Why is MAP dropping? '' \<noteq> [] \<and> \<not> isLoading panel0
   \<and> map url (snd (sendMessage trimAscii sampleClock sampleFormat offline [] []
                      ''  Why is MAP dropping? '' panel0)) = [''/api/ask'']
   \<and> map request_body (snd (sendMessage trimAscii sampleClock sampleFormat offline [] []
                      ''  Why is MAP dropping? '' panel0)) =
       [Ask \<lparr>query = ''Why is MAP dropping?'',
             patient_data = ''No current patient data available.'',
             clinical_specialty = ''General OR consultation'',
             chat_history = [(Assistant, ''Hello!'')]\<rparr>]
   \<and> trimAscii ''   '' = []
   \<and> snd (sendMessage trimAscii sampleClock sampleFormat offline [] [] ''   '' panel0) = []
   \<and> map request_body (snd (fetchForecast forecastOffline forecast0)) =
       [Forecast \<lparr>duration_minutes = 30, vitals_type = ''MAP''\<rparr>]"
proof -
  have g1: "trimAscii ''  Why is MAP dropping? '' \<noteq> []" by (simp add: trim_hello)
  have g2: "\<not> isLoading panel0" by (simp add: panel0_def)
  note inst = chat_and_forecast_requests
    [of trimAscii "''  Why is MAP dropping? ''" panel0 sampleClock sampleFormat offline
        "[]" "[]" forecastOffline forecast0]
  from inst g1 g2
  have a: "snd (sendMessage trimAscii sampleClock sampleFormat offline [] []
                      ''  Why is MAP dropping? '' panel0) =
           [askRequest trimAscii sampleFormat [] [] ''  Why is MAP dropping? '' panel0]"
    by blast
  from inst
  have b: "url (askRequest trimAscii sampleFormat [] [] ''  Why is MAP dropping? '' panel0) = ''/api/ask''"
    and c: "request_body (askRequest trimAscii sampleFormat [] [] ''  Why is MAP dropping? '' panel0) =
       Ask \<lparr>query = trimAscii ''  Why is MAP dropping? '',
            patient_data = formatPatientContext sampleFormat [] [] (selectedContext panel0),
            clinical_specialty = selectedContext panel0,
            chat_history = map (\<lambda>m. (msg_role m, msg_content m)) (slice_last 5 (messages panel0))\<rparr>"
    and d: "snd (fetchForecast forecastOffline forecast0) = [forecastRequest forecast0]"
    and e: "request_body (forecastRequest forecast0) =
       Forecast \<lparr>duration_minutes = 30, vitals_type = selectedMetric forecast0\<rparr>"
    by blast+
  note inst2 = chat_and_forecast_requests
    [of trimAscii "''   ''" panel0 sampleClock sampleFormat offline
        "[]" "[]" forecastOffline forecast0]
  from inst2 have f: "snd (sendMessage trimAscii sampleClock sampleFormat offline [] [] ''   '' panel0) = []"
    by (simp add: trim_blank)
  have ctx: "formatPatientContext sampleFormat [] [] (selectedContext panel0) =
      ''No current patient data available.''"
    by (simp add: formatPatientContext_def Let_def)
  have hist: "map (\<lambda>m. (msg_role m, msg_content m)) (slice_last 5 (messages panel0)) =
      [(Assistant, ''Hello!'')]"
    by (simp add: panel0_def greeting_def slice_last_def)
  show ?thesis
    using g1 g2
    by (simp add: a b c d e f ctx hist trim_hello trim_blank)
      (simp add: panel0_def forecast0_def)
qed

subsection \<open>Interval timers\<close>

lemma setInterval_running:
  "running (snd (setInterval p h)) = running h @ [(next_timer h, p)]"
  "fst (setInterval p h) = next_timer h"
  by (simp_all add: setInterval_def)

lemma clearInterval_cancels: "i \<notin> fst ` set (running (clearInterval i h))"
  by (auto simp: clearInterval_def)

lemma clearInterval_keeps:
  "u \<in> set (running h) \<Longrightarrow> fst u \<noteq> i \<Longrightarrow> u \<in> set (running (clearInterval i h))"
  by (auto simp: clearInterval_def)

lemma registers_mono:
  "registers ps e h \<Longrightarrow> set ps \<subseteq> set qs \<Longrightarrow> registers qs e h"
  by (auto simp: registers_def list_ex_iff)

lemma registers_startMonitoring: "registers [3000] startMonitoring h"
  by (simp add: registers_def startMonitoring_def setInterval_def)

lemma registers_appleWatchEffect: "registers [3000] (appleWatchEffect b) h"
  by (simp add: registers_def appleWatchEffect_def startMonitoring_def setInterval_def)

lemma registers_fetchDataEffect: "registers [5000, 10000] (fetchDataEffect b) h"
  by (simp add: registers_def fetchDataEffect_def setInterval_def)

lemma registers_updateIntervalEffect: "registers [5000] updateIntervalEffect h"
  by (simp add: registers_def updateIntervalEffect_def setInterval_def)

lemma registers_mobileAppEffect: "registers [10000] mobileAppEffect h"
  by (simp add: registers_def mobileAppEffect_def setInterval_def)

lemma registers_autoRefreshEffect: "registers [15000] (autoRefreshEffect b) h"
  by (simp add: registers_def autoRefreshEffect_def setInterval_def)

lemma registers_patientSummaryEffect: "registers [30000] patientSummaryEffect h"
  by (simp add: registers_def patientSummaryEffect_def setInterval_def)

lemma registers_startRealtimeStream: "registers [5000] startRealtimeStream h"
  by (simp add: registers_def startRealtimeStream_def setInterval_def)

lemma registers_testConnectionEffect: "registers [5000] testConnectionEffect h"
  by (simp add: registers_def testConnectionEffect_def setInterval_def)

lemma timerEffects_register:
  assumes "e \<in> set timerEffects"
  shows "registers [3000, 5000, 10000, 15000, 30000] e h"
proof -
  from assms consider
      "e = startMonitoring" | b where "e = appleWatchEffect b" | b where "e = fetchDataEffect b"
    | "e = updateIntervalEffect" | "e = mobileAppEffect" | b where "e = autoRefreshEffect b"
    | "e = patientSummaryEffect" | "e = startRealtimeStream" | "e = testConnectionEffect"
    unfolding timerEffects_def by auto
  then show ?thesis
  proof cases
    case 1 then show ?thesis
      using registers_mono [OF registers_startMonitoring] by simp
  next
    case 2 then show ?thesis
      using registers_mono [OF registers_appleWatchEffect] by simp
  next
    case 3 then show ?thesis
      using registers_mono [OF registers_fetchDataEffect] by simp
  next
    case 4 then show ?thesis
      using registers_mono [OF registers_updateIntervalEffect] by simp
  next
    case 5 then show ?thesis
      using registers_mono [OF registers_mobileAppEffect] by simp
  next
    case 6 then show ?thesis
      using registers_mono [OF registers_autoRefreshEffect] by simp
  next
    case 7 then show ?thesis
      using registers_mono [OF registers_patientSummaryEffect] by simp
  next
    case 8 then show ?thesis
      using registers_mono [OF registers_startRealtimeStream] by simp
  next
    case 9 then show ?thesis
      using registers_mono [OF registers_testConnectionEffect] by simp
  qed
qed

lemma registers_created:
  assumes "registers ps e h" and "t \<in> set (running (fst (e h))) - set (running h)"
  shows "snd t \<in> set ps \<and> snd (e h) = Some (clearInterval (fst t))"
proof -
  from assms(2) have "e h \<noteq> (h, None)" by auto
  with assms(1) obtain p where p: "p \<in> set ps"
    and eh: "e h = (snd (setInterval p h), Some (clearInterval (fst (setInterval p h))))"
    by (auto simp: registers_def list_ex_iff)
  from assms(2) eh have "t = (next_timer h, p)"
    by (auto simp: setInterval_running)
  with p eh show ?thesis by (simp add: setInterval_running)
qed

lemma patientSummary_timer:
  "running (fst (patientSummaryEffect noTimers)) = [(0, 30000)]"
  by (simp add: patientSummaryEffect_def setInterval_def noTimers_def)

lemma periods_in_use:
  "(0, 3000) \<in> set (running (fst (startMonitoring noTimers)))"
  "(0, 5000) \<in> set (running (fst (updateIntervalEffect noTimers)))"
  "(0, 10000) \<in> set (running (fst (mobileAppEffect noTimers)))"
  "(0, 15000) \<in> set (running (fst (autoRefreshEffect True noTimers)))"
  "(0, 30000) \<in> set (running (fst (patientSummaryEffect noTimers)))"
  by (simp_all add: startMonitoring_def updateIntervalEffect_def mobileAppEffect_def
      autoRefreshEffect_def patientSummaryEffect_def setInterval_def noTimers_def)

text \<open>
  C6, as stated, fails at the patient summary, whose refresh timer has a period of
  30 seconds.
\<close>

theorem patient_summary_period:
  "patientSummaryEffect \<in> set timerEffects
   \<and> running (fst (patientSummaryEffect noTimers)) = [(0, 30000)]
   \<and> \<not> (30000::nat) \<le> 15000"
  by (simp add: patientSummary_timer timerEffects_def)

text \<open>
  C6, amended. Every timer a \<open>setInterval\<close> call of the repository registers has a
  period of 3000, 5000, 10000, 15000 or 30000 milliseconds, hence between 3 and 30
  seconds, and the function that registers it returns a cleanup, which is
  \<open>clearInterval\<close> of that timer: run on any later table it removes the timer and
  keeps every other one.
\<close>

theorem interval_timers:
  "\<forall>e \<in> set timerEffects. \<forall>t \<in> set (running (fst (e h))) - set (running h).
     snd t \<in> {3000, 5000, 10000, 15000, 30000}
     \<and> 3000 \<le> snd t \<and> snd t \<le> 30000
     \<and> (\<exists>cleanup. snd (e h) = Some cleanup
           \<and> (\<forall>h'. fst t \<notin> fst ` set (running (cleanup h'))
                 \<and> (\<forall>u \<in> set (running h'). fst u \<noteq> fst t \<longrightarrow> u \<in> set (running (cleanup h')))))"
proof (intro ballI)
  fix e t
  assume e: "e \<in> set timerEffects" and t: "t \<in> set (running (fst (e h))) - set (running h)"
  from registers_created [OF timerEffects_register [OF e] t]
  have p: "snd t \<in> set [3000, 5000, 10000, 15000, 30000]"
    and c: "snd (e h) = Some (clearInterval (fst t))"
    by simp_all
  from p have range: "snd t \<in> {3000, 5000, 10000, 15000, 30000} \<and> 3000 \<le> snd t \<and> snd t \<le> 30000"
    by auto
  have "\<forall>h'. fst t \<notin> fst ` set (running (clearInterval (fst t) h'))
          \<and> (\<forall>u \<in> set (running h'). fst u \<noteq> fst t \<longrightarrow> u \<in> set (running (clearInterval (fst t) h')))"
    using clearInterval_cancels clearInterval_keeps by blast
  with c range
  show "snd t \<in> {3000, 5000, 10000, 15000, 30000}
     \<and> 3000 \<le> snd t \<and> snd t \<le> 30000
     \<and> (\<exists>cleanup. snd (e h) = Some cleanup
           \<and> (\<forall>h'. fst t \<notin> fst ` set (running (cleanup h'))
                 \<and> (\<forall>u \<in> set (running h'). fst u \<noteq> fst t \<longrightarrow> u \<in> set (running (cleanup h')))))"
    by blast
qed

theorem interval_timers_witness:
  "patientSummaryEffect \<in> set timerEffects
   \<and> (0, 30000) \<in> set (running (fst (patientSummaryEffect noTimers))) - set (running noTimers)
   \<and> (3000::nat) \<le> 30000 \<and> (30000::nat) \<le> 30000
   \<and> (\<exists>cleanup. snd (patientSummaryEffect noTimers) = Some cleanup
         \<and> running (cleanup (fst (patientSummaryEffect noTimers))) = [])"
proof -
  have e: "patientSummaryEffect \<in> set timerEffects" by (simp add: timerEffects_def)
  have t: "(0::nat, 30000::nat) \<in> set (running (fst (patientSummaryEffect noTimers))) - set (running noTimers)"
    by (simp add: patientSummary_timer) (simp add: noTimers_def)
  from interval_timers [of noTimers] e t
  obtain cleanup where c: "snd (patientSummaryEffect noTimers) = Some cleanup"
    and gone: "\<forall>h'. fst (0::nat, 30000::nat) \<notin> fst ` set (running (cleanup h'))"
    by blast
  have "cleanup = clearInterval 0"
    using c by (simp add: patientSummaryEffect_def setInterval_def noTimers_def)
  then have "running (cleanup (fst (patientSummaryEffect noTimers))) = []"
    by (simp add: clearInterval_def patientSummary_timer)
  with c e t show ?thesis by simp
qed

end
